theory Spec2Isabelle
  imports Main "HOL-Library.Word"
begin

section \<open>Data model\<close>

text \<open>
  The server keeps two collections in a document store, users and tournaments. A
  collection is a list of documents in insertion order. A document identifier
  (\<open>_id\<close>, a MongoDB ObjectId) is a 12-byte value.

  The tournament schema is \<^verbatim>\<open>models/tournament.js\<close>: \<open>name\<close> and
  \<open>description\<close> are plain \<open>String\<close> paths, not required, so either may be
  absent from a document; \<open>createdBy\<close> is an ObjectId and \<open>participants\<close> an
  array of ObjectIds.
\<close>

type_synonym objectId = "96 word"

text \<open>
  Modelled from the spec: the user schema (\<^verbatim>\<open>models/user.js\<close> is not among the
  sources). Section 6 of the spec gives its layout: an email with a unique index and a
  password hash; the server reads \<open>_id\<close>, \<open>email\<close> and \<open>password\<close> of a user.
\<close>

record user =
  user_id :: objectId
  user_email :: string
  user_password :: string

record tournament =
  t_id :: objectId
  t_name :: "string option"
  t_description :: "string option"
  createdBy :: objectId
  participants :: "objectId list"

record db =
  users :: "user list"
  tournaments :: "tournament list"

definition emptyDb :: db where
  "emptyDb = \<lparr>users = [], tournaments = []\<rparr>"

text \<open>
  The object the login route signs, \<^verbatim>\<open>{ id: user._id, email: user.email }\<close>, which
  the handlers of the protected routes read back as \<^verbatim>\<open>req.user\<close>. Inside a token
  the id travels as the text of the ObjectId; mongoose casts it back where a handler
  stores it and compares it by that text in \<^verbatim>\<open>participants.includes\<close>, so it is
  kept as the ObjectId it denotes. jsonwebtoken adds the time of issue to the payload; no
  handler reads it, and it is left out.
\<close>

record jwtPayload =
  payload_id :: objectId
  payload_email :: string

text \<open>
  A bearer token is either a signed payload or a string that does not parse as one.
\<close>

datatype token = Jwt jwtPayload string | Opaque string

subsection \<open>The libraries the server calls\<close>

text \<open>
  The server calls bcryptjs, jsonwebtoken and mongoose. Their code is not part of the
  repository, so what they compute is a parameter of the model:
  \<^item> \<open>bcrypt_hash password rounds salt\<close> is the digest of \<^verbatim>\<open>bcrypt.hash\<close>, the
    salt being what the library draws at random in that call;
  \<^item> \<open>bcrypt_compare password digest\<close> is the answer of \<^verbatim>\<open>bcrypt.compare\<close>;
  \<^item> \<open>hmac key payload\<close> is the signature jsonwebtoken computes over a payload;
  \<^item> \<open>castObjectId s\<close> is mongoose's cast of a string to an ObjectId, \<open>None\<close>
    where the string is not the text of an ObjectId.
\<close>

record libs =
  bcrypt_hash :: "string \<Rightarrow> nat \<Rightarrow> string \<Rightarrow> string"
  bcrypt_compare :: "string \<Rightarrow> string \<Rightarrow> bool"
  hmac :: "string \<Rightarrow> jwtPayload \<Rightarrow> string"
  castObjectId :: "string \<Rightarrow> objectId option"

text \<open>The process environment: \<^verbatim>\<open>process.env.JWT_SECRET\<close> may be unset.\<close>

record env =
  JWT_SECRET :: "string option"

subsection \<open>Errors and responses\<close>

text \<open>
  What a library call can throw inside a handler: mongoose's cast error for a string
  that is no ObjectId, the store's duplicate key error on insert, jsonwebtoken's error
  for a missing secret, and bcryptjs's error for a password that is not a string.
\<close>

datatype error = CastError string | DuplicateKey | SecretMissing | IllegalArguments

text \<open>
  A populated tournament, as the list route returns it: the owner and the participants
  resolved to the \<open>_id\<close> and \<open>email\<close> of the user documents.
\<close>

record populated =
  p_id :: objectId
  p_name :: "string option"
  p_description :: "string option"
  p_createdBy :: "(objectId \<times> string) option"
  p_participants :: "(objectId \<times> string) list"

datatype body =
    Message string
  | ServerError string error
  | TokenBody token
  | TournamentDoc tournament
  | TournamentDocs "populated list"
  | AuthFailure

record response =
  status :: nat
  body :: body

section \<open>The document store\<close>

definition findOne :: "user list \<Rightarrow> string \<Rightarrow> user option" where
  "findOne us email = find (\<lambda>u. user_email u = email) us"

definition findUserById :: "user list \<Rightarrow> objectId \<Rightarrow> user option" where
  "findUserById us i = find (\<lambda>u. user_id u = i) us"

text \<open>
  \<^verbatim>\<open>save()\<close> of a new document inserts it; the store refuses a second document
  with the same \<open>_id\<close> (and, for users, the same email: the unique index).
\<close>

definition saveNewUser :: "user list \<Rightarrow> user \<Rightarrow> error + user list" where
  "saveNewUser us u =
     (if list_ex (\<lambda>x. user_id x = user_id u \<or> user_email x = user_email u) us
      then Inl DuplicateKey else Inr (us @ [u]))"

definition saveNewTournament :: "tournament list \<Rightarrow> tournament \<Rightarrow> error + tournament list" where
  "saveNewTournament ts t =
     (if list_ex (\<lambda>x. t_id x = t_id t) ts then Inl DuplicateKey else Inr (ts @ [t]))"

text \<open>\<^verbatim>\<open>save()\<close> of a document that was read from the store writes it back under its \<open>_id\<close>.\<close>

definition saveTournament :: "tournament list \<Rightarrow> tournament \<Rightarrow> tournament list" where
  "saveTournament ts t = map (\<lambda>x. if t_id x = t_id t then t else x) ts"

definition findTournament :: "tournament list \<Rightarrow> objectId \<Rightarrow> tournament option" where
  "findTournament ts i = find (\<lambda>t. t_id t = i) ts"

text \<open>
  \<^verbatim>\<open>Tournament.findById(req.params.id)\<close>: the path parameter is a string; mongoose
  casts it to an ObjectId and throws where it cannot.
\<close>

definition findById :: "libs \<Rightarrow> tournament list \<Rightarrow> string \<Rightarrow> error + tournament option" where
  "findById L ts s =
     (case castObjectId L s of
        None \<Rightarrow> Inl (CastError s)
      | Some i \<Rightarrow> Inr (findTournament ts i))"

section \<open>Token issuing\<close>

text \<open>
  \<^verbatim>\<open>jwt.sign(payload, process.env.JWT_SECRET)\<close>: jsonwebtoken throws when the secret
  is undefined or empty, and else returns the payload with its signature.
\<close>

definition jwt_sign :: "libs \<Rightarrow> jwtPayload \<Rightarrow> string option \<Rightarrow> error + token" where
  "jwt_sign L payload secret =
     (case secret of
        None \<Rightarrow> Inl SecretMissing
      | Some k \<Rightarrow> if k = [] then Inl SecretMissing else Inr (Jwt payload (hmac L k payload)))"

section \<open>The route handlers\<close>

text \<open>
  The repository holds two copies of the server file with the same routes; the later
  one wraps every handler in \<^verbatim>\<open>try\<close>/\<^verbatim>\<open>catch\<close>, and its routes are the ones
  modelled here. Each handler is the body of the \<^verbatim>\<open>try\<close> block of its route, with
  the \<^verbatim>\<open>catch\<close> branch (status 500, message \<open>Server error\<close>) where a call throws.
  A handler that writes takes the store and returns the store it leaves. The ObjectId
  of a new document and the salt of a new digest are chosen by the libraries at the
  call; they are arguments here. The email of a request body is read as a string. The
  password of a body may be missing: \<^verbatim>\<open>bcrypt.hash\<close> and \<^verbatim>\<open>bcrypt.compare\<close>
  throw when they are given no string. The name and the description of a tournament
  may be missing as well, and the schema lets them.
\<close>

definition serverError :: "error \<Rightarrow> response" where
  "serverError err = \<lparr>status = 500, body = ServerError ''Server error'' err\<rparr>"

definition register ::
  "libs \<Rightarrow> db \<Rightarrow> objectId \<Rightarrow> string \<Rightarrow> string \<Rightarrow> string option \<Rightarrow> db \<times> response" where
  "register L d oid salt email password =
     (case findOne (users d) email of
        Some existing \<Rightarrow> (d, \<lparr>status = 400, body = Message ''User exists''\<rparr>)
      | None \<Rightarrow>
          (case password of
             None \<Rightarrow> (d, serverError IllegalArguments)
           | Some pw \<Rightarrow>
               (let hashed = bcrypt_hash L pw 10 salt;
                    user = \<lparr>user_id = oid, user_email = email, user_password = hashed\<rparr>
                in case saveNewUser (users d) user of
                     Inl err \<Rightarrow> (d, serverError err)
                   | Inr us \<Rightarrow>
                       (d\<lparr>users := us\<rparr>, \<lparr>status = 200, body = Message ''Registered''\<rparr>))))"

definition login :: "libs \<Rightarrow> env \<Rightarrow> db \<Rightarrow> string \<Rightarrow> string option \<Rightarrow> response" where
  "login L E d email password =
     (case findOne (users d) email of
        None \<Rightarrow> \<lparr>status = 400, body = Message ''Invalid credentials''\<rparr>
      | Some user \<Rightarrow>
          (case password of
             None \<Rightarrow> serverError IllegalArguments
           | Some pw \<Rightarrow>
               if \<not> bcrypt_compare L pw (user_password user)
               then \<lparr>status = 400, body = Message ''Invalid credentials''\<rparr>
               else (case jwt_sign L
                            \<lparr>payload_id = user_id user, payload_email = user_email user\<rparr>
                            (JWT_SECRET E) of
                       Inl err \<Rightarrow> serverError err
                     | Inr tok \<Rightarrow> \<lparr>status = 200, body = TokenBody tok\<rparr>)))"

definition newTournament :: "objectId \<Rightarrow> jwtPayload \<Rightarrow> string option \<Rightarrow> string option \<Rightarrow> tournament" where
  "newTournament oid req_user name description =
     \<lparr>t_id = oid, t_name = name, t_description = description,
      createdBy = payload_id req_user, participants = [payload_id req_user]\<rparr>"

definition createTournament ::
  "db \<Rightarrow> objectId \<Rightarrow> jwtPayload \<Rightarrow> string option \<Rightarrow> string option \<Rightarrow> db \<times> response" where
  "createTournament d oid req_user name description =
     (let tournament = newTournament oid req_user name description
      in case saveNewTournament (tournaments d) tournament of
           Inl err \<Rightarrow> (d, serverError err)
         | Inr ts \<Rightarrow> (d\<lparr>tournaments := ts\<rparr>, \<lparr>status = 200, body = TournamentDoc tournament\<rparr>))"

definition populate :: "user list \<Rightarrow> tournament \<Rightarrow> populated" where
  "populate us t =
     \<lparr>p_id = t_id t, p_name = t_name t, p_description = t_description t,
      p_createdBy = map_option (\<lambda>u. (user_id u, user_email u)) (findUserById us (createdBy t)),
      p_participants =
        List.map_filter (\<lambda>i. map_option (\<lambda>u. (user_id u, user_email u)) (findUserById us i))
          (participants t)\<rparr>"

definition listTournaments :: "db \<Rightarrow> response" where
  "listTournaments d =
     \<lparr>status = 200, body = TournamentDocs (map (populate (users d)) (tournaments d))\<rparr>"

definition joinTournament :: "libs \<Rightarrow> db \<Rightarrow> jwtPayload \<Rightarrow> string \<Rightarrow> db \<times> response" where
  "joinTournament L d req_user idParam =
     (case findById L (tournaments d) idParam of
        Inl err \<Rightarrow> (d, serverError err)
      | Inr None \<Rightarrow> (d, \<lparr>status = 404, body = Message ''Not found''\<rparr>)
      | Inr (Some tournament) \<Rightarrow>
          if payload_id req_user \<notin> set (participants tournament)
          then (let pushed = tournament\<lparr>participants := participants tournament @ [payload_id req_user]\<rparr>
                in (d\<lparr>tournaments := saveTournament (tournaments d) pushed\<rparr>,
                    \<lparr>status = 200, body = TournamentDoc pushed\<rparr>))
          else (d, \<lparr>status = 200, body = TournamentDoc tournament\<rparr>))"

section \<open>The auth gate\<close>

text \<open>
  The file \<^verbatim>\<open>middleware/auth.js\<close> is not among the sources; the server only
  requires it and mounts it before the two tournament handlers. The three definitions
  of this section follow the spec instead.
\<close>

text \<open>
  Modelled from the spec: the token verifier that \<^verbatim>\<open>middleware/auth.js\<close> calls.
  Section 4.2: verification recomputes the signature over the payload with the
  process-wide secret and yields the payload, and fails for a malformed token, a
  signature that does not match, or another secret. With no secret set there is
  nothing to verify against, and it fails.
\<close>

definition tokenVerify :: "libs \<Rightarrow> string option \<Rightarrow> token \<Rightarrow> jwtPayload option" where
  "tokenVerify L secret tok =
     (case secret of
        None \<Rightarrow> None
      | Some k \<Rightarrow>
          (case tok of
             Opaque s \<Rightarrow> None
           | Jwt payload sig \<Rightarrow> if sig = hmac L k payload then Some payload else None))"

text \<open>
  Modelled from the spec: the response of \<^verbatim>\<open>middleware/auth.js\<close> to a request it
  rejects. Sections 6 and 7: an authentication failure, status 401; the spec does not
  give the text of the message.
\<close>

definition unauthorized :: response where
  "unauthorized = \<lparr>status = 401, body = AuthFailure\<rparr>"

text \<open>
  Modelled from the spec: the middleware of \<^verbatim>\<open>middleware/auth.js\<close>. Section 4.3:
  the gate takes the bearer credential from the authorization header (scheme
  \<open>Bearer\<close>), hands it to the verifier, and on success attaches the decoded identity
  to the request for the handler; on any failure of extraction or verification it
  answers with the authentication failure and the downstream operation is not invoked.
  The header is read as its scheme and its credential, \<open>None\<close> when the request has
  none. The result is either the response of the gate or the identity it passes on.
\<close>

definition auth :: "libs \<Rightarrow> env \<Rightarrow> (string \<times> token) option \<Rightarrow> response + jwtPayload" where
  "auth L E header =
     (case header of
        None \<Rightarrow> Inl unauthorized
      | Some (scheme, tok) \<Rightarrow>
          if scheme \<noteq> ''Bearer'' then Inl unauthorized
          else (case tokenVerify L (JWT_SECRET E) tok of
                  None \<Rightarrow> Inl unauthorized
                | Some identity \<Rightarrow> Inr identity))"

text \<open>
  The protected routes, as the server mounts them:
  \<^verbatim>\<open>app.post('/api/tournaments', auth, handler)\<close> and
  \<^verbatim>\<open>app.post('/api/tournaments/:id/join', auth, handler)\<close>. The handler runs only
  when the middleware before it passes the request on, with \<^verbatim>\<open>req.user\<close> set.
\<close>

definition protected ::
  "libs \<Rightarrow> env \<Rightarrow> (string \<times> token) option \<Rightarrow> db \<Rightarrow> (jwtPayload \<Rightarrow> db \<times> response) \<Rightarrow> db \<times> response" where
  "protected L E header d handler =
     (case auth L E header of
        Inl res \<Rightarrow> (d, res)
      | Inr req_user \<Rightarrow> handler req_user)"


definition postTournamentsJoin ::
  "libs \<Rightarrow> env \<Rightarrow> db \<Rightarrow> (string \<times> token) option \<Rightarrow> string \<Rightarrow> db \<times> response" where
  "postTournamentsJoin L E d header idParam =
     protected L E header d (\<lambda>req_user. joinTournament L d req_user idParam)"

section \<open>Request histories\<close>

text \<open>
  The operations of the identity and membership subsystem, with their inputs. The
  tournament operations carry the caller's identity as the handler receives it; any
  identity is allowed here, so what holds of every history holds of the histories that
  pass the gate. The newsletter route touches neither collection and is left out.
\<close>

datatype request =
    Register objectId string string "string option"
  | Login string "string option"
  | CreateTournament objectId jwtPayload "string option" "string option"
  | ListTournaments
  | JoinTournament jwtPayload string

fun step :: "libs \<Rightarrow> env \<Rightarrow> db \<Rightarrow> request \<Rightarrow> db \<times> response" where
  "step L E d (Register oid salt email password) = register L d oid salt email password"
| "step L E d (Login email password) = (d, login L E d email password)"
| "step L E d (CreateTournament oid req_user name description) =
     createTournament d oid req_user name description"
| "step L E d ListTournaments = (d, listTournaments d)"
| "step L E d (JoinTournament req_user idParam) = joinTournament L d req_user idParam"

fun run :: "libs \<Rightarrow> env \<Rightarrow> db \<Rightarrow> request list \<Rightarrow> db" where
  "run L E d [] = d"
| "run L E d (r # rs) = run L E (fst (step L E d r)) rs"

text \<open>The same join request sent \<open>n\<close> times in a row: the store left and the responses.\<close>

fun joinTimes :: "libs \<Rightarrow> db \<Rightarrow> jwtPayload \<Rightarrow> string \<Rightarrow> nat \<Rightarrow> db \<times> response list" where
  "joinTimes L d req_user idParam 0 = (d, [])"
| "joinTimes L d req_user idParam (Suc n) =
     (let (d1, res) = joinTournament L d req_user idParam;
          (d2, ress) = joinTimes L d1 req_user idParam n
      in (d2, res # ress))"

section \<open>Test doubles\<close>

text \<open>
  Deterministic stand-ins for the libraries, to run the handlers on concrete requests:
  a digest that is the salt, a separator and the password; a signature that is the key
  and the signed email; and the cast of the 24 hexadecimal digits of an ObjectId.
\<close>

definition hexDigit :: "char \<Rightarrow> nat option" where
  "hexDigit c =
     (let n = (of_char c :: nat)
      in if 48 \<le> n \<and> n \<le> 57 then Some (n - 48)
         else if 97 \<le> n \<and> n \<le> 102 then Some (n - 87)
         else if 65 \<le> n \<and> n \<le> 70 then Some (n - 55)
         else None)"

fun hexValue :: "nat \<Rightarrow> string \<Rightarrow> nat option" where
  "hexValue acc [] = Some acc"
| "hexValue acc (c # cs) =
     (case hexDigit c of None \<Rightarrow> None | Some v \<Rightarrow> hexValue (16 * acc + v) cs)"

definition castHex24 :: "string \<Rightarrow> objectId option" where
  "castHex24 s = (if length s = 24 then map_option of_nat (hexValue 0 s) else None)"

definition stubLibs :: libs where
  "stubLibs =
     \<lparr>bcrypt_hash = (\<lambda>password rounds salt. salt @ ''$'' @ password),
      bcrypt_compare = (\<lambda>password digest. dropWhile (\<lambda>c. c \<noteq> CHR ''$'') digest = ''$'' @ password),
      hmac = (\<lambda>key payload. key @ ''.'' @ payload_email payload),
      castObjectId = castHex24\<rparr>"

definition stubEnv :: env where
  "stubEnv = \<lparr>JWT_SECRET = Some ''s3cret''\<rparr>"

definition alice :: jwtPayload where
  "alice = \<lparr>payload_id = 1, payload_email = ''a@x.com''\<rparr>"

definition bob :: jwtPayload where
  "bob = \<lparr>payload_id = 2, payload_email = ''b@x.com''\<rparr>"

text \<open>A store with one user and the tournament she created, which has the ObjectId 10.\<close>

definition cupDb :: db where
  "cupDb =
     run stubLibs stubEnv emptyDb
       [Register 1 ''salt'' ''a@x.com'' (Some ''pw1''),
        CreateTournament 10 alice (Some ''Cup'') (Some ''desc'')]"

section \<open>Invariant of the tournament collection\<close>

text \<open>No tournament of the store lists a participant twice.\<close>

definition noDuplicates :: "db \<Rightarrow> bool" where
  "noDuplicates d = list_all (\<lambda>t. distinct (participants t)) (tournaments d)"

section \<open>Evaluating the test doubles\<close>

lemmas stubs = stubLibs_def stubEnv_def alice_def bob_def emptyDb_def castHex24_def hexDigit_def

lemmas handlers = register_def login_def createTournament_def newTournament_def
  joinTournament_def listTournaments_def findOne_def findById_def findTournament_def
  saveNewUser_def saveNewTournament_def saveTournament_def serverError_def jwt_sign_def

lemma cupDb_eq:
  "cupDb =
     \<lparr>users = [\<lparr>user_id = 1, user_email = ''a@x.com'', user_password = ''salt$pw1''\<rparr>],
      tournaments =
        [\<lparr>t_id = 10, t_name = Some ''Cup'', t_description = Some ''desc'',
          createdBy = 1, participants = [1]\<rparr>]\<rparr>"
  by (simp add: cupDb_def stubs handlers Let_def)

lemma cast_a: "castObjectId stubLibs ''00000000000000000000000a'' = Some 10"
  by (simp add: stubs)

lemma cast_b: "castObjectId stubLibs ''00000000000000000000000b'' = Some 11"
  by (simp add: stubs)

lemma cast_abc: "castObjectId stubLibs ''abc'' = None"
  by (simp add: stubs)

lemma cup_found:
  "findTournament (tournaments cupDb) 10
     = Some \<lparr>t_id = 10, t_name = Some ''Cup'', t_description = Some ''desc'',
             createdBy = 1, participants = [1]\<rparr>"
  by (simp add: cupDb_eq findTournament_def)

lemma alice_found:
  "findOne (users cupDb) ''a@x.com''
     = Some \<lparr>user_id = 1, user_email = ''a@x.com'', user_password = ''salt$pw1''\<rparr>"
  by (simp add: cupDb_eq findOne_def)

text \<open>
  The scenario of section 8 of the spec, on the test doubles: a second registration of
  the same email is refused, the creator of a tournament is its only participant, her
  own join changes nothing, and a join of an id that no tournament has is not found.
\<close>

lemma scenario_register_again:
  "register stubLibs cupDb 2 ''salt'' ''a@x.com'' (Some ''pw1'')
     = (cupDb, \<lparr>status = 400, body = Message ''User exists''\<rparr>)"
  by (simp add: register_def alice_found)

lemma scenario_join_again:
  "postTournamentsJoin stubLibs stubEnv cupDb (Some (''Bearer'', Jwt alice ''s3cret.a@x.com''))
     ''00000000000000000000000a''
     = (cupDb,
        \<lparr>status = 200,
         body = TournamentDoc \<lparr>t_id = 10, t_name = Some ''Cup'', t_description = Some ''desc'',
                               createdBy = 1, participants = [1]\<rparr>\<rparr>)"
  by (simp add: postTournamentsJoin_def protected_def auth_def tokenVerify_def
        joinTournament_def findById_def cast_a cup_found)
     (simp add: stubs)

lemma scenario_join_unknown:
  "postTournamentsJoin stubLibs stubEnv cupDb (Some (''Bearer'', Jwt alice ''s3cret.a@x.com''))
     ''00000000000000000000000b''
     = (cupDb, \<lparr>status = 404, body = Message ''Not found''\<rparr>)"
  by (simp add: postTournamentsJoin_def protected_def auth_def tokenVerify_def
        joinTournament_def findById_def cast_b)
     (simp add: stubs cupDb_eq findTournament_def)

section \<open>Lookups in a collection\<close>

lemma find_append:
  "find P (xs @ ys) = (case find P xs of None \<Rightarrow> find P ys | Some x \<Rightarrow> Some x)"
  by (induction xs) auto

lemma findTournament_id: "findTournament ts i = Some t \<Longrightarrow> t_id t = i"
  by (auto simp: findTournament_def find_Some_iff)

lemma findTournament_mem: "findTournament ts i = Some t \<Longrightarrow> t \<in> set ts"
  by (auto simp: findTournament_def find_Some_iff)

lemma findTournament_absent: "i \<notin> t_id ` set ts \<Longrightarrow> findTournament ts i = None"
  by (auto simp: findTournament_def find_None_iff)

lemma findOne_absent: "email \<notin> user_email ` set us \<Longrightarrow> findOne us email = None"
  by (auto simp: findOne_def find_None_iff)

lemma findTournament_saveTournament:
  "findTournament (saveTournament ts p) i
     = map_option (\<lambda>x. if t_id x = t_id p then p else x) (findTournament ts i)"
  by (induction ts) (auto simp: findTournament_def saveTournament_def)

lemma findTournament_snoc:
  "findTournament ts i = Some t \<Longrightarrow> findTournament (ts @ [x]) i = Some t"
  by (simp add: findTournament_def find_append)

lemma distinct_count_list: "distinct xs \<Longrightarrow> x \<in> set xs \<Longrightarrow> count_list xs x = 1"
  by (induction xs) auto

section \<open>Every history keeps the participants free of duplicates\<close>

lemma register_tournaments:
  "tournaments (fst (register L d oid salt email password)) = tournaments d"
  by (simp add: register_def Let_def split: option.splits sum.splits)

lemma createTournament_noDuplicates:
  "noDuplicates d \<Longrightarrow> noDuplicates (fst (createTournament d oid u n ds))"
  by (simp add: createTournament_def newTournament_def saveNewTournament_def
        noDuplicates_def Let_def)

lemma joinTournament_noDuplicates:
  "noDuplicates d \<Longrightarrow> noDuplicates (fst (joinTournament L d u p))"
  by (auto simp: joinTournament_def findById_def noDuplicates_def saveTournament_def
        list_all_iff Let_def dest!: findTournament_mem split: option.splits sum.splits)

lemma step_noDuplicates: "noDuplicates d \<Longrightarrow> noDuplicates (fst (step L E d r))"
proof (cases r)
  case (Register oid salt email password)
  assume "noDuplicates d"
  then show ?thesis
    using register_tournaments [of L d oid salt email password]
    by (simp add: Register noDuplicates_def)
qed (simp_all add: createTournament_noDuplicates joinTournament_noDuplicates)

lemma run_noDuplicates: "noDuplicates d \<Longrightarrow> noDuplicates (run L E d rs)"
  by (induction rs arbitrary: d) (simp_all add: step_noDuplicates)

lemma emptyDb_noDuplicates: "noDuplicates emptyDb"
  by (simp add: noDuplicates_def emptyDb_def)

section \<open>Every history keeps an owner among the participants\<close>

lemma step_keeps_owner:
  assumes "findTournament (tournaments d) i = Some t" and "createdBy t = c"
      and "c \<in> set (participants t)"
  shows "\<exists>t'. findTournament (tournaments (fst (step L E d r))) i = Some t'
              \<and> createdBy t' = c \<and> c \<in> set (participants t')"
proof (cases r)
  case (Register oid salt email password)
  with assms show ?thesis
    using register_tournaments [of L d oid salt email password] by simp
next
  case (Login email password)
  with assms show ?thesis by simp
next
  case (CreateTournament oid u n ds)
  with assms show ?thesis
    by (auto simp: createTournament_def saveNewTournament_def Let_def findTournament_snoc)
next
  case ListTournaments
  with assms show ?thesis by simp
next
  case (JoinTournament u p)
  show ?thesis
  proof (cases "castObjectId L p")
    case None
    with assms JoinTournament show ?thesis
      by (simp add: joinTournament_def findById_def)
  next
    case (Some j)
    show ?thesis
    proof (cases "findTournament (tournaments d) j")
      case None
      with assms JoinTournament Some show ?thesis
        by (simp add: joinTournament_def findById_def)
    next
      case (Some found)
      have same: "j = i \<Longrightarrow> found = t"
        using Some assms(1) by simp
      from Some have "t_id found = j"
        by (rule findTournament_id)
      moreover from assms(1) have "t_id t = i"
        by (rule findTournament_id)
      ultimately show ?thesis
        using assms JoinTournament \<open>castObjectId L p = Some j\<close> Some same
        by (auto simp: joinTournament_def findById_def Let_def findTournament_saveTournament)
    qed
  qed
qed

lemma run_keeps_owner:
  assumes "findTournament (tournaments d) i = Some t" and "createdBy t = c"
      and "c \<in> set (participants t)"
  shows "\<exists>t'. findTournament (tournaments (run L E d rs)) i = Some t'
              \<and> createdBy t' = c \<and> c \<in> set (participants t')"
  using assms
proof (induction rs arbitrary: d t)
  case Nil
  then show ?case by simp
next
  case (Cons r rs)
  from step_keeps_owner [OF Cons.prems, of L E r]
  obtain t' where "findTournament (tournaments (fst (step L E d r))) i = Some t'"
    "createdBy t' = c" "c \<in> set (participants t')" by blast
  from Cons.IH [OF this] show ?case by simp
qed

lemma joinTimes_fixed:
  "joinTournament L d u p = (d, res) \<Longrightarrow> joinTimes L d u p n = (d, replicate n res)"
  by (induction n) simp_all

section \<open>Joining a tournament that does not exist\<close>

text \<open>
  Claim C7. For every tournament id for which the store holds no tournament, the join
  handler answers 404 with the message \<open>Not found\<close> and returns the store as it
  was: every tournament and every user is unchanged and nothing is written. The id is
  the ObjectId \<open>i\<close> that the path parameter denotes.
\<close>

theorem joinTournament_not_found:
  assumes "castObjectId L idParam = Some i"
      and "i \<notin> t_id ` set (tournaments d)"
  shows "joinTournament L d req_user idParam
           = (d, \<lparr>status = 404, body = Message ''Not found''\<rparr>)"
proof -
  from assms(2) have "findTournament (tournaments d) i = None"
    by (rule findTournament_absent)
  with assms(1) show ?thesis
    by (simp add: joinTournament_def findById_def)
qed

theorem joinTournament_not_found_witness:
  "castObjectId stubLibs ''00000000000000000000000b'' = Some 11
   \<and> 11 \<notin> t_id ` set (tournaments cupDb)
   \<and> joinTournament stubLibs cupDb bob ''00000000000000000000000b''
       = (cupDb, \<lparr>status = 404, body = Message ''Not found''\<rparr>)"
proof -
  have c: "castObjectId stubLibs ''00000000000000000000000b'' = Some 11"
    by (rule cast_b)
  have a: "11 \<notin> t_id ` set (tournaments cupDb)"
    by (simp add: cupDb_eq)
  from c a joinTournament_not_found [OF c a, of bob] show ?thesis
    by blast
qed

section \<open>Joining with a path parameter that is no ObjectId\<close>

text \<open>
  Claim C9. When the path parameter of a join request is not the text of an ObjectId,
  the lookup throws instead of finding nothing, so the handler answers with the
  generic server error (500, message \<open>Server error\<close>) and not with 404; the store is
  returned unchanged.
\<close>

theorem joinTournament_cast_error:
  assumes "castObjectId L idParam = None"
  shows "joinTournament L d req_user idParam
           = (d, \<lparr>status = 500, body = ServerError ''Server error'' (CastError idParam)\<rparr>)"
  using assms by (simp add: joinTournament_def findById_def serverError_def)

theorem joinTournament_cast_error_witness:
  "castObjectId stubLibs ''abc'' = None
   \<and> joinTournament stubLibs cupDb bob ''abc''
       = (cupDb, \<lparr>status = 500, body = ServerError ''Server error'' (CastError ''abc'')\<rparr>)"
  using joinTournament_cast_error [OF cast_abc, of cupDb bob] cast_abc by simp

section \<open>Joining is idempotent\<close>

text \<open>
  Claim C1. Take a store the server has reached by some history of requests, a path
  parameter that denotes a tournament of that store, and any caller. The same join
  request sent one or more times (\<open>Suc n\<close> times) leaves the tournament with the
  caller among its participants exactly once. The first call appends the caller at the
  end of the participants when the caller is not a member and leaves them alone when
  the caller is one; a call after the first changes nothing in the store; and every
  call answers 200 with the same tournament.
\<close>

theorem joinTournament_idempotent:
  assumes reach: "d = run L E emptyDb history"
      and cast: "castObjectId L idParam = Some i"
      and present: "findTournament (tournaments d) i = Some t"
  shows "let caller = payload_id req_user;
             joined = (if caller \<in> set (participants t) then t
                       else t\<lparr>participants := participants t @ [caller]\<rparr>);
             d1 = (if caller \<in> set (participants t) then d
                   else d\<lparr>tournaments := saveTournament (tournaments d) joined\<rparr>);
             res = \<lparr>status = 200, body = TournamentDoc joined\<rparr>
         in joinTournament L d req_user idParam = (d1, res)
            \<and> joinTournament L d1 req_user idParam = (d1, res)
            \<and> joinTimes L d req_user idParam (Suc n) = (d1, replicate (Suc n) res)
            \<and> findTournament (tournaments d1) i = Some joined
            \<and> count_list (participants joined) caller = 1"
proof -
  define caller where "caller = payload_id req_user"
  define joined where "joined = (if caller \<in> set (participants t) then t
                       else t\<lparr>participants := participants t @ [caller]\<rparr>)"
  define d1 where "d1 = (if caller \<in> set (participants t) then d
                   else d\<lparr>tournaments := saveTournament (tournaments d) joined\<rparr>)"
  define res where "res = \<lparr>status = 200, body = TournamentDoc joined\<rparr>"
  have id_t: "t_id t = i"
    using present by (rule findTournament_id)
  have id_joined: "t_id joined = i"
    using id_t by (simp add: joined_def)
  have first: "joinTournament L d req_user idParam = (d1, res)"
    using cast present
    by (simp add: joinTournament_def findById_def Let_def d1_def res_def joined_def caller_def)
  have found: "findTournament (tournaments d1) i = Some joined"
    using present id_t id_joined
    by (simp add: d1_def findTournament_saveTournament) (simp add: joined_def)
  have member: "caller \<in> set (participants joined)"
    by (simp add: joined_def)
  have later: "joinTournament L d1 req_user idParam = (d1, res)"
    using cast found member
    by (simp add: joinTournament_def findById_def res_def caller_def)
  have many: "joinTimes L d req_user idParam (Suc n) = (d1, replicate (Suc n) res)"
    using first joinTimes_fixed [OF later, of n] by simp
  have "noDuplicates d"
    unfolding reach by (rule run_noDuplicates [OF emptyDb_noDuplicates])
  with present have "distinct (participants t)"
    by (auto simp: noDuplicates_def list_all_iff dest: findTournament_mem)
  then have "distinct (participants joined)"
    by (simp add: joined_def)
  with member have once: "count_list (participants joined) caller = 1"
    by (simp add: distinct_count_list)
  from first later many found once show ?thesis
    unfolding Let_def caller_def [symmetric] joined_def [symmetric] d1_def [symmetric]
      res_def [symmetric]
    by blast
qed

theorem joinTournament_idempotent_witness:
  "cupDb = run stubLibs stubEnv emptyDb
             [Register 1 ''salt'' ''a@x.com'' (Some ''pw1''),
              CreateTournament 10 alice (Some ''Cup'') (Some ''desc'')]
   \<and> castObjectId stubLibs ''00000000000000000000000a'' = Some 10
   \<and> findTournament (tournaments cupDb) 10
        = Some \<lparr>t_id = 10, t_name = Some ''Cup'', t_description = Some ''desc'',
                createdBy = 1, participants = [1]\<rparr>
   \<and> joinTimes stubLibs cupDb bob ''00000000000000000000000a'' (Suc (Suc (Suc 0)))
        = (cupDb\<lparr>tournaments :=
                   [\<lparr>t_id = 10, t_name = Some ''Cup'', t_description = Some ''desc'',
                     createdBy = 1, participants = [1, 2]\<rparr>]\<rparr>,
           [\<lparr>status = 200, body = TournamentDoc
               \<lparr>t_id = 10, t_name = Some ''Cup'', t_description = Some ''desc'',
                createdBy = 1, participants = [1, 2]\<rparr>\<rparr>,
            \<lparr>status = 200, body = TournamentDoc
               \<lparr>t_id = 10, t_name = Some ''Cup'', t_description = Some ''desc'',
                createdBy = 1, participants = [1, 2]\<rparr>\<rparr>,
            \<lparr>status = 200, body = TournamentDoc
               \<lparr>t_id = 10, t_name = Some ''Cup'', t_description = Some ''desc'',
                createdBy = 1, participants = [1, 2]\<rparr>\<rparr>])
   \<and> count_list [1, 2 :: objectId] 2 = 1"
proof -
  have saved: "saveTournament (tournaments cupDb)
                 \<lparr>t_id = 10, t_name = Some ''Cup'', t_description = Some ''desc'',
                  createdBy = 1, participants = [1, 2]\<rparr>
               = [\<lparr>t_id = 10, t_name = Some ''Cup'', t_description = Some ''desc'',
                   createdBy = 1, participants = [1, 2]\<rparr>]"
    by (simp add: cupDb_eq saveTournament_def)
  from joinTournament_idempotent [OF cupDb_def cast_a cup_found, of bob "Suc (Suc 0)"]
  have "joinTimes stubLibs cupDb bob ''00000000000000000000000a'' (Suc (Suc (Suc 0)))
        = (cupDb\<lparr>tournaments :=
                   [\<lparr>t_id = 10, t_name = Some ''Cup'', t_description = Some ''desc'',
                     createdBy = 1, participants = [1, 2]\<rparr>]\<rparr>,
           replicate (Suc (Suc (Suc 0)))
             \<lparr>status = 200, body = TournamentDoc
               \<lparr>t_id = 10, t_name = Some ''Cup'', t_description = Some ''desc'',
                createdBy = 1, participants = [1, 2]\<rparr>\<rparr>)"
    by (simp add: Let_def bob_def saved)
  with cupDb_def cast_a cup_found show ?thesis
    by simp
qed

section \<open>The owner is a participant\<close>

text \<open>
  Claim C2. For every caller, name and description, the create handler builds a
  tournament whose \<open>createdBy\<close> is the caller and whose participants are exactly the
  caller; when the store takes the new document, the owner is in its participants
  exactly once, and after every later history of requests the tournament is still in
  the store with the same owner, who is still among its participants.
\<close>

theorem owner_is_participant:
  assumes "oid \<notin> t_id ` set (tournaments d)"
  shows "let owner = payload_id req_user;
             created = \<lparr>t_id = oid, t_name = name, t_description = description,
                        createdBy = owner, participants = [owner]\<rparr>;
             d1 = d\<lparr>tournaments := tournaments d @ [created]\<rparr>
         in createTournament d oid req_user name description
              = (d1, \<lparr>status = 200, body = TournamentDoc created\<rparr>)
            \<and> findTournament (tournaments d1) oid = Some created
            \<and> count_list (participants created) owner = 1
            \<and> (\<exists>t. findTournament (tournaments (run L E d1 later)) oid = Some t
                     \<and> createdBy t = owner \<and> owner \<in> set (participants t))"
proof -
  define owner where "owner = payload_id req_user"
  define created where "created = \<lparr>t_id = oid, t_name = name, t_description = description,
                        createdBy = owner, participants = [owner]\<rparr>"
  define d1 where "d1 = d\<lparr>tournaments := tournaments d @ [created]\<rparr>"
  from assms have absent: "findTournament (tournaments d) oid = None"
    by (rule findTournament_absent)
  have built: "createTournament d oid req_user name description
              = (d1, \<lparr>status = 200, body = TournamentDoc created\<rparr>)"
    using assms
    by (auto simp: createTournament_def newTournament_def saveNewTournament_def list_ex_iff
          Let_def d1_def created_def owner_def)
  have found: "findTournament (tournaments d1) oid = Some created"
    using absent by (simp add: d1_def findTournament_def find_append created_def)
  have once: "count_list (participants created) owner = 1"
    by (simp add: created_def)
  have "createdBy created = owner" "owner \<in> set (participants created)"
    by (simp_all add: created_def)
  from run_keeps_owner [OF found this]
  have kept: "\<exists>t. findTournament (tournaments (run L E d1 later)) oid = Some t
                     \<and> createdBy t = owner \<and> owner \<in> set (participants t)" .
  from built found once kept show ?thesis
    unfolding Let_def owner_def [symmetric] created_def [symmetric] d1_def [symmetric]
    by blast
qed

theorem owner_is_participant_witness:
  "11 \<notin> t_id ` set (tournaments cupDb)
   \<and> createTournament cupDb 11 bob (Some ''Open'') None
       = (cupDb\<lparr>tournaments := tournaments cupDb @
             [\<lparr>t_id = 11, t_name = Some ''Open'', t_description = None,
               createdBy = 2, participants = [2]\<rparr>]\<rparr>,
          \<lparr>status = 200,
           body = TournamentDoc \<lparr>t_id = 11, t_name = Some ''Open'', t_description = None,
                                 createdBy = 2, participants = [2]\<rparr>\<rparr>)
   \<and> (\<exists>t. findTournament
              (tournaments
                (run stubLibs stubEnv
                  (cupDb\<lparr>tournaments := tournaments cupDb @
                     [\<lparr>t_id = 11, t_name = Some ''Open'', t_description = None,
                       createdBy = 2, participants = [2]\<rparr>]\<rparr>)
                  [JoinTournament alice ''00000000000000000000000b'',
                   JoinTournament bob ''00000000000000000000000b'']))
              11 = Some t
            \<and> createdBy t = 2 \<and> 2 \<in> set (participants t))"
proof -
  have a: "11 \<notin> t_id ` set (tournaments cupDb)"
    by (simp add: cupDb_eq)
  from owner_is_participant [OF a, of bob "Some ''Open''" None stubLibs stubEnv
      "[JoinTournament alice ''00000000000000000000000b'',
        JoinTournament bob ''00000000000000000000000b'']"] a
  show ?thesis
    by (simp add: Let_def bob_def)
qed

section \<open>Registering an email twice\<close>

text \<open>
  Claim C5. For every email that no stored user has yet, registering it twice stores
  exactly one user with that email: the first attempt succeeds (200, \<open>Registered\<close>)
  when the store takes the new document, and the second attempt answers 400 with the
  message \<open>User exists\<close> and leaves the store as the first left it.
\<close>

theorem register_twice:
  assumes fresh_email: "email \<notin> user_email ` set (users d)"
      and fresh_id: "oid1 \<notin> user_id ` set (users d)"
  shows "let registered = \<lparr>user_id = oid1, user_email = email,
                            user_password = bcrypt_hash L password1 10 salt1\<rparr>;
             d1 = d\<lparr>users := users d @ [registered]\<rparr>
         in register L d oid1 salt1 email (Some password1)
              = (d1, \<lparr>status = 200, body = Message ''Registered''\<rparr>)
            \<and> register L d1 oid2 salt2 email password2
              = (d1, \<lparr>status = 400, body = Message ''User exists''\<rparr>)
            \<and> filter (\<lambda>u. user_email u = email) (users d1) = [registered]"
proof -
  define registered where "registered = \<lparr>user_id = oid1, user_email = email,
                            user_password = bcrypt_hash L password1 10 salt1\<rparr>"
  define d1 where "d1 = d\<lparr>users := users d @ [registered]\<rparr>"
  from fresh_email have none: "findOne (users d) email = None"
    by (rule findOne_absent)
  from fresh_email fresh_id
  have ok: "saveNewUser (users d) registered = Inr (users d @ [registered])"
    by (auto simp: saveNewUser_def registered_def list_ex_iff)
  have first: "register L d oid1 salt1 email (Some password1)
           = (d1, \<lparr>status = 200, body = Message ''Registered''\<rparr>)"
    using none ok by (simp add: register_def Let_def registered_def d1_def)
  have found: "findOne (users d1) email = Some registered"
    using none by (simp add: findOne_def d1_def find_append registered_def)
  have second: "register L d1 oid2 salt2 email password2
           = (d1, \<lparr>status = 400, body = Message ''User exists''\<rparr>)"
    using found by (simp add: register_def)
  from fresh_email have "filter (\<lambda>u. user_email u = email) (users d) = []"
    by (auto simp: filter_empty_conv)
  then have one: "filter (\<lambda>u. user_email u = email) (users d1) = [registered]"
    by (simp add: d1_def registered_def)
  from first second one show ?thesis
    unfolding Let_def registered_def [symmetric] d1_def [symmetric] by simp
qed

theorem register_twice_witness:
  "''b@x.com'' \<notin> user_email ` set (users cupDb)
   \<and> 2 \<notin> user_id ` set (users cupDb)
   \<and> register stubLibs cupDb 2 ''na'' ''b@x.com'' (Some ''pw2'')
       = (cupDb\<lparr>users := users cupDb @
             [\<lparr>user_id = 2, user_email = ''b@x.com'', user_password = ''na$pw2''\<rparr>]\<rparr>,
          \<lparr>status = 200, body = Message ''Registered''\<rparr>)
   \<and> register stubLibs
        (cupDb\<lparr>users := users cupDb @
             [\<lparr>user_id = 2, user_email = ''b@x.com'', user_password = ''na$pw2''\<rparr>]\<rparr>)
        3 ''cl'' ''b@x.com'' (Some ''pw3'')
       = (cupDb\<lparr>users := users cupDb @
             [\<lparr>user_id = 2, user_email = ''b@x.com'', user_password = ''na$pw2''\<rparr>]\<rparr>,
          \<lparr>status = 400, body = Message ''User exists''\<rparr>)
   \<and> filter (\<lambda>u. user_email u = ''b@x.com'')
        (users (cupDb\<lparr>users := users cupDb @
             [\<lparr>user_id = 2, user_email = ''b@x.com'', user_password = ''na$pw2''\<rparr>]\<rparr>))
       = [\<lparr>user_id = 2, user_email = ''b@x.com'', user_password = ''na$pw2''\<rparr>]"
proof -
  have a: "''b@x.com'' \<notin> user_email ` set (users cupDb)"
    by (simp add: cupDb_eq)
  have b: "2 \<notin> user_id ` set (users cupDb)"
    by (simp add: cupDb_eq)
  have h: "bcrypt_hash stubLibs ''pw2'' 10 ''na'' = ''na$pw2''"
    by (simp add: stubs)
  from register_twice [OF a b, of stubLibs "''pw2''" "''na''" 3 "''cl''" "Some ''pw3''"] a b
  show ?thesis unfolding Let_def h by simp
qed

section \<open>What a failed login tells\<close>

text \<open>
  The login route answers its two failures, an email that no stored user has and a
  password that the stored digest does not verify, from one condition with one
  message. For a body whose password is a string the two responses are therefore the
  same, 400 with the message \<open>Invalid credentials\<close>, and carry no token.
\<close>

lemma login_failure_uniform:
  assumes unknown: "email1 \<notin> user_email ` set (users d)"
      and known: "findOne (users d) email2 = Some u"
      and wrong: "\<not> bcrypt_compare L password2 (user_password u)"
  shows "login L E d email2 (Some password2)
           = \<lparr>status = 400, body = Message ''Invalid credentials''\<rparr>
         \<and> login L E d email1 password1 = login L E d email2 (Some password2)"
proof -
  from unknown have "findOne (users d) email1 = None"
    by (rule findOne_absent)
  with known wrong show ?thesis
    by (simp add: login_def)
qed

text \<open>
  The route does not check that the body has a password, as the newsletter route
  checks that its body has an email. \<^verbatim>\<open>bcrypt.compare\<close> is reached only when the
  email is that of a stored user, and it throws when the password is no string; the
  \<^verbatim>\<open>catch\<close> branch then answers 500. So for a body without a password the response
  depends on whether the email is stored, whatever the libraries and the secret are.
\<close>

lemma login_without_password:
  assumes unknown: "email1 \<notin> user_email ` set (users d)"
      and known: "findOne (users d) email2 = Some u"
  shows "login L E d email2 None
           = \<lparr>status = 500, body = ServerError ''Server error'' IllegalArguments\<rparr>
         \<and> login L E d email1 None
           = \<lparr>status = 400, body = Message ''Invalid credentials''\<rparr>"
proof -
  from unknown have "findOne (users d) email1 = None"
    by (rule findOne_absent)
  with known show ?thesis
    by (simp add: login_def serverError_def)
qed

text \<open>
  Claim C6 says that a failed login never reveals which part of the credential was
  wrong: the response for an unknown email and the response for a known email with a
  wrong password have the same status and message. The code breaks this at a login
  body that has an email and no password. In the store with the one user
  \<open>a@x.com\<close>, such a login answers 500 with the message \<open>Server error\<close> for
  \<open>a@x.com\<close> and 400 with the message \<open>Invalid credentials\<close> for \<open>c@x.com\<close>,
  which no user has: the two responses differ, and the status tells that the first
  email is registered.
\<close>

theorem login_reveals_stored_email:
  "login stubLibs stubEnv cupDb ''a@x.com'' None
     = \<lparr>status = 500, body = ServerError ''Server error'' IllegalArguments\<rparr>
   \<and> login stubLibs stubEnv cupDb ''c@x.com'' None
     = \<lparr>status = 400, body = Message ''Invalid credentials''\<rparr>
   \<and> login stubLibs stubEnv cupDb ''a@x.com'' None
     \<noteq> login stubLibs stubEnv cupDb ''c@x.com'' None"
proof -
  have a: "''c@x.com'' \<notin> user_email ` set (users cupDb)"
    by (simp add: cupDb_eq)
  from login_without_password [OF a alice_found, of stubLibs stubEnv]
  show ?thesis
    by simp
qed

section \<open>Creating a tournament checks nothing\<close>

text \<open>
  Claim C10. The create handler validates none of its inputs: for every caller, and for
  every name and description, absent or empty ones included, the request succeeds
  when the store takes the new document, and the tournament stored and returned has
  the name and the description as the body gave them, absent where they were absent.
\<close>

theorem createTournament_no_validation:
  assumes "oid \<notin> t_id ` set (tournaments d)"
  shows "let stored = \<lparr>t_id = oid, t_name = name, t_description = description,
                       createdBy = payload_id req_user, participants = [payload_id req_user]\<rparr>
         in createTournament d oid req_user name description
           = (d\<lparr>tournaments := tournaments d @ [stored]\<rparr>,
              \<lparr>status = 200, body = TournamentDoc stored\<rparr>)"
  using assms
  by (auto simp: createTournament_def newTournament_def saveNewTournament_def
        list_ex_iff Let_def)

theorem createTournament_no_validation_witness:
  "12 \<notin> t_id ` set (tournaments cupDb)
   \<and> createTournament cupDb 12 bob None (Some [])
       = (cupDb\<lparr>tournaments := tournaments cupDb @
             [\<lparr>t_id = 12, t_name = None, t_description = Some [],
               createdBy = 2, participants = [2]\<rparr>]\<rparr>,
          \<lparr>status = 200,
           body = TournamentDoc \<lparr>t_id = 12, t_name = None, t_description = Some [],
                                 createdBy = 2, participants = [2]\<rparr>\<rparr>)"
proof -
  have a: "12 \<notin> t_id ` set (tournaments cupDb)"
    by (simp add: cupDb_eq)
  from createTournament_no_validation [OF a, of None "Some []" bob] a
  show ?thesis by (simp add: Let_def bob_def)
qed

section \<open>A token issued at login verifies to the user it was issued for\<close>

text \<open>
  Claim C3. With a process-wide secret set, signing a payload of any identifier and
  email gives a token, and verifying that token under the same secret succeeds and
  yields exactly that payload. In particular a login with the email of a stored user
  and a password that the stored digest verifies answers 200 with a token whose
  verified payload is that user's identifier and email.
\<close>

theorem token_roundtrip:
  assumes secret: "JWT_SECRET E = Some k" and nonempty: "k \<noteq> []"
      and stored: "findOne (users d) email = Some u"
      and correct: "bcrypt_compare L password (user_password u)"
  shows "(let tok = Jwt payload (hmac L k payload)
          in jwt_sign L payload (JWT_SECRET E) = Inr tok
             \<and> tokenVerify L (JWT_SECRET E) tok = Some payload)
         \<and> (let identity = \<lparr>payload_id = user_id u, payload_email = email\<rparr>;
                 tok = Jwt identity (hmac L k identity)
             in login L E d email (Some password) = \<lparr>status = 200, body = TokenBody tok\<rparr>
                \<and> tokenVerify L (JWT_SECRET E) tok = Some identity)"
proof -
  from stored have "user_email u = email"
    by (auto simp: findOne_def find_Some_iff)
  with assms show ?thesis
    by (simp add: Let_def jwt_sign_def tokenVerify_def login_def)
qed

theorem token_roundtrip_witness:
  "JWT_SECRET stubEnv = Some ''s3cret''
   \<and> ''s3cret'' \<noteq> []
   \<and> findOne (users cupDb) ''a@x.com''
        = Some \<lparr>user_id = 1, user_email = ''a@x.com'', user_password = ''salt$pw1''\<rparr>
   \<and> bcrypt_compare stubLibs ''pw1'' ''salt$pw1''
   \<and> jwt_sign stubLibs bob (JWT_SECRET stubEnv) = Inr (Jwt bob ''s3cret.b@x.com'')
   \<and> tokenVerify stubLibs (JWT_SECRET stubEnv) (Jwt bob ''s3cret.b@x.com'') = Some bob
   \<and> login stubLibs stubEnv cupDb ''a@x.com'' (Some ''pw1'')
        = \<lparr>status = 200, body = TokenBody (Jwt alice ''s3cret.a@x.com'')\<rparr>
   \<and> tokenVerify stubLibs (JWT_SECRET stubEnv) (Jwt alice ''s3cret.a@x.com'') = Some alice"
proof -
  have s: "JWT_SECRET stubEnv = Some ''s3cret''"
    by (simp add: stubs)
  have n: "''s3cret'' \<noteq> []"
    by simp
  have c: "bcrypt_compare stubLibs ''pw1''
             (user_password \<lparr>user_id = 1, user_email = ''a@x.com'', user_password = ''salt$pw1''\<rparr>)"
    by (simp add: stubs)
  have h1: "hmac stubLibs ''s3cret'' bob = ''s3cret.b@x.com''"
    by (simp add: stubs)
  have h2: "hmac stubLibs ''s3cret'' alice = ''s3cret.a@x.com''"
    by (simp add: stubs)
  have al: "\<lparr>payload_id = 1, payload_email = ''a@x.com''\<rparr> = alice"
    by (simp add: alice_def)
  from token_roundtrip [OF s n alice_found c, of bob] s alice_found c
  show ?thesis
    by (simp add: Let_def al h1 h2)
qed

section \<open>The gate rejects before the handler runs\<close>



end
